theory Spec2Isabelle
  imports Main
begin

section \<open>JavaScript values used by the token manager and the client\<close>

text \<open>
  A JavaScript number that holds a timestamp is an integer or \<open>NaN\<close> (what \<open>parseInt\<close>
  gives on a string without digits). Arithmetic with \<open>NaN\<close> gives \<open>NaN\<close> and every
  comparison with \<open>NaN\<close> is false. Integers are unbounded here; the loss of precision of a
  double beyond \<open>2^53\<close> is not represented.
\<close>

datatype jsnum = Num int | NaN

fun js_sub :: "jsnum \<Rightarrow> jsnum \<Rightarrow> jsnum" where
  "js_sub (Num a) (Num b) = Num (a - b)"
| "js_sub _ _ = NaN"

fun js_gt :: "jsnum \<Rightarrow> jsnum \<Rightarrow> bool" where
  "js_gt (Num a) (Num b) = (a > b)"
| "js_gt _ _ = False"

fun js_mul :: "jsnum \<Rightarrow> jsnum \<Rightarrow> jsnum" where
  "js_mul (Num a) (Num b) = Num (a * b)"
| "js_mul _ _ = NaN"

text \<open>
  \<open>parseInt(s)\<close> without a radix: leading white space is skipped (the ASCII white space
  characters are represented), one sign is read, a prefix \<open>0x\<close> or \<open>0X\<close> selects radix 16,
  and the longest run of digits of the radix is the value; no digit gives \<open>NaN\<close>.
\<close>

definition is_space :: "char \<Rightarrow> bool" where
  "is_space c = (c \<in> set [CHR 0x09, CHR 0x0A, CHR 0x0B, CHR 0x0C, CHR 0x0D, CHR '' ''])"

definition digit_val :: "char \<Rightarrow> int option" where
  "digit_val c =
     (let n = of_char c :: int in
      if 48 \<le> n \<and> n \<le> 57 then Some (n - 48)
      else if 97 \<le> n \<and> n \<le> 122 then Some (n - 87)
      else if 65 \<le> n \<and> n \<le> 90 then Some (n - 55)
      else None)"

definition is_digit :: "int \<Rightarrow> char \<Rightarrow> bool" where
  "is_digit radix c = (case digit_val c of None \<Rightarrow> False | Some d \<Rightarrow> d < radix)"

definition digits_value :: "int \<Rightarrow> string \<Rightarrow> int" where
  "digits_value radix ds =
     foldl (\<lambda>acc c. acc * radix + (case digit_val c of None \<Rightarrow> 0 | Some d \<Rightarrow> d)) 0 ds"

definition parseInt :: "string \<Rightarrow> jsnum" where
  "parseInt s =
     (let s1 = dropWhile is_space s;
          negative = (case s1 of c # _ \<Rightarrow> c = CHR ''-'' | [] \<Rightarrow> False);
          s2 = (case s1 of c # r \<Rightarrow> if c = CHR ''+'' \<or> c = CHR ''-'' then r else s1 | [] \<Rightarrow> s1);
          hex = (take 2 s2 = ''0x'' \<or> take 2 s2 = ''0X'');
          radix = (if hex then 16 else 10);
          s3 = (if hex then drop 2 s2 else s2);
          ds = takeWhile (is_digit radix) s3
      in if ds = [] then NaN
         else Num ((if negative then - 1 else 1) * digits_value radix ds))"

text \<open>
  A number inside a template literal is rendered in decimal; this is the rendering of a
  natural number, used for an HTTP status.
\<close>

definition digit_char :: "nat \<Rightarrow> char" where
  "digit_char d = ''0123456789'' ! d"

fun toString_nat :: "nat \<Rightarrow> string" where
  "toString_nat n =
     (if 10 \<le> n then toString_nat (n div 10) @ [digit_char (n mod 10)] else [digit_char n])"

declare toString_nat.simps [simp del]

section \<open>HTTP, exceptions and the trace of effects\<close>

text \<open>
  A thrown JavaScript exception is a value. \<open>Error\<close> is what the repository's own
  \<open>throw new Error(message)\<close> statements raise; \<open>FetchError\<close> and \<open>SyntaxError\<close> are what
  \<open>fetch\<close> and \<open>response.json()\<close> reject with, \<open>RangeError\<close> what \<open>toISOString\<close>
  throws on an invalid date. Each is an instance of \<open>Error\<close> and carries a message.
\<close>

datatype exn = Error string | FetchError string | SyntaxError string | RangeError string

fun message :: "exn \<Rightarrow> string" where
  "message (Error m) = m"
| "message (FetchError m) = m"
| "message (SyntaxError m) = m"
| "message (RangeError m) = m"

text \<open>
  \<open>new Date(t).toISOString()\<close>. The date is valid when \<open>t\<close> is a number at most
  \<open>8.64e15\<close> milliseconds away from the epoch; on an invalid date \<open>toISOString\<close> throws a
  \<open>RangeError\<close> with the message \<open>Invalid time value\<close>. A valid date is rendered in UTC in
  the proleptic Gregorian calendar as \<open>YYYY-MM-DDTHH:mm:ss.sssZ\<close>, the year with a sign and
  six digits when it is outside 0..9999.
\<close>

definition padStart :: "nat \<Rightarrow> int \<Rightarrow> string" where
  "padStart w n = (let s = toString_nat (nat n) in replicate (w - length s) CHR ''0'' @ s)"

text \<open>Year, month and day of the day that is \<open>days\<close> days after 1970-01-01.\<close>

definition civil_from_days :: "int \<Rightarrow> int \<times> int \<times> int" where
  "civil_from_days days =
     (let z = days + 719468;
          era = z div 146097;
          doe = z - era * 146097;
          yoe = (doe - doe div 1460 + doe div 36524 - doe div 146096) div 365;
          doy = doe - (365 * yoe + yoe div 4 - yoe div 100);
          mp = (5 * doy + 2) div 153;
          d = doy - (153 * mp + 2) div 5 + 1;
          m = (if mp < 10 then mp + 3 else mp - 9);
          y = yoe + era * 400 + (if m \<le> 2 then 1 else 0)
      in (y, m, d))"

definition iso_year :: "int \<Rightarrow> string" where
  "iso_year y =
     (if 0 \<le> y \<and> y \<le> 9999 then padStart 4 y
      else (if y < 0 then ''-'' else ''+'') @ padStart 6 (abs y))"

definition iso_string :: "int \<Rightarrow> string" where
  "iso_string ms =
     (let days = ms div 86400000;
          r = ms mod 86400000
      in case civil_from_days days of (y, m, d) \<Rightarrow>
           iso_year y @ ''-'' @ padStart 2 m @ ''-'' @ padStart 2 d @ ''T''
           @ padStart 2 (r div 3600000) @ '':'' @ padStart 2 (r div 60000 mod 60) @ '':''
           @ padStart 2 (r div 1000 mod 60) @ ''.'' @ padStart 3 (r mod 1000) @ ''Z'')"

definition valid_time :: "jsnum \<Rightarrow> bool" where
  "valid_time t = (case t of NaN \<Rightarrow> False | Num ms \<Rightarrow> abs ms \<le> 8640000000000000)"

definition toISOString :: "jsnum \<Rightarrow> exn + string" where
  "toISOString t =
     (case t of
        NaN \<Rightarrow> Inl (RangeError ''Invalid time value'')
      | Num ms \<Rightarrow>
          if abs ms \<le> 8640000000000000 then Inr (iso_string ms)
          else Inl (RangeError ''Invalid time value''))"

text \<open>The object given to \<open>JSON.stringify\<close> as the body of the refresh request.\<close>

datatype request_body =
  Body (client_id: string) (client_secret: string) (body_refresh_token: string) (grant_type: string)

record http_request =
  req_method :: string
  req_url :: string
  req_headers :: "(string \<times> string) list"
  req_body :: "request_body option"

record http_response =
  status :: nat
  body_text :: string

text \<open>\<open>response.ok\<close> of node-fetch: the status is in the range 200 to 299.\<close>

definition ok :: "http_response \<Rightarrow> bool" where
  "ok r = (200 \<le> status r \<and> status r < 300)"

text \<open>The shape the refresh response is cast to.\<close>

record token_data =
  access_token :: string
  refresh_token :: string
  expires_at :: int

text \<open>
  The outside world of one call: what \<open>fetch\<close> answers to a request, and what
  \<open>response.json()\<close> gives for the body of a token response and of a data response
  (the payload type \<open>'d\<close> stands for the type argument \<open>T\<close> of \<open>request\<close>). Each may reject.
\<close>

record 'd env =
  fetch :: "http_request \<Rightarrow> exn + http_response"
  json_token :: "string \<Rightarrow> exn + token_data"
  json_data :: "string \<Rightarrow> exn + 'd"

text \<open>
  The trace records, in order, every invocation of the token manager and every network
  call; it is what a spy on the token manager and on \<open>fetch\<close> would see. Console output
  is not represented.
\<close>

datatype event = Call_getValidToken | Call_refresh | Fetch http_request

definition is_fetch :: "event \<Rightarrow> bool" where
  "is_fetch ev = (case ev of Fetch _ \<Rightarrow> True | _ \<Rightarrow> False)"

section \<open>TokenManager\<close>

record token_manager =
  accessToken :: string
  refreshToken :: string
  expiresAt :: jsnum
  clientId :: string
  clientSecret :: string

text \<open>A variable of the process environment counts as unset when it is missing or empty.\<close>

definition unset :: "(string \<rightharpoonup> string) \<Rightarrow> string \<Rightarrow> bool" where
  "unset penv name = (penv name = None \<or> penv name = Some [])"

text \<open>\<open>process.env.NAME || dflt\<close>: an unset variable and an empty one both give the default.\<close>

definition env_or :: "(string \<rightharpoonup> string) \<Rightarrow> string \<Rightarrow> string \<Rightarrow> string" where
  "env_or penv name dflt =
     (case penv name of None \<Rightarrow> dflt | Some v \<Rightarrow> if v = [] then dflt else v)"

definition constructor :: "(string \<rightharpoonup> string) \<Rightarrow> exn + token_manager" where
  "constructor penv =
     (let this = \<lparr> accessToken = env_or penv ''STRAVA_ACCESS_TOKEN'' [],
                   refreshToken = env_or penv ''STRAVA_REFRESH_TOKEN'' [],
                   expiresAt = parseInt (env_or penv ''STRAVA_EXPIRES_AT'' ''0''),
                   clientId = env_or penv ''STRAVA_CLIENT_ID'' [],
                   clientSecret = env_or penv ''STRAVA_CLIENT_SECRET'' [] \<rparr>
      in if clientId this = [] \<or> clientSecret this = [] then
           Inl (Error ''STRAVA_CLIENT_ID and STRAVA_CLIENT_SECRET must be set'')
         else if accessToken this = [] \<or> refreshToken this = [] then
           Inl (Error ''STRAVA_ACCESS_TOKEN and STRAVA_REFRESH_TOKEN must be set. Run setup-auth.ts first.'')
         else Inr this)"

definition refresh_request :: "token_manager \<Rightarrow> http_request" where
  "refresh_request this =
     \<lparr> req_method = ''POST'',
       req_url = ''https://www.strava.com/oauth/token'',
       req_headers = [(''Content-Type'', ''application/json'')],
       req_body = Some (Body (clientId this) (clientSecret this) (refreshToken this)
                          ''refresh_token'') \<rparr>"

definition refresh :: "'d env \<Rightarrow> token_manager \<Rightarrow> (exn + unit) \<times> token_manager \<times> event list" where
  "refresh world this =
     (let req = refresh_request this; tr = [Call_refresh, Fetch req] in
      case fetch world req of
        Inl e \<Rightarrow> (Inl e, this, tr)
      | Inr response \<Rightarrow>
          if \<not> ok response then
            (Inl (Error (''Failed to refresh token: '' @ toString_nat (status response)
                          @ '' '' @ body_text response)), this, tr)
          else
            (case json_token world (body_text response) of
               Inl e \<Rightarrow> (Inl e, this, tr)
             | Inr d \<Rightarrow>
                 (Inr (),
                  this \<lparr> accessToken := access_token d,
                         refreshToken := refresh_token d,
                         expiresAt := Num (expires_at d) \<rparr>,
                  tr)))"

definition getValidToken ::
  "'d env \<Rightarrow> token_manager \<Rightarrow> int \<Rightarrow> (exn + string) \<times> token_manager \<times> event list" where
  "getValidToken world this date_now =
     (let oneHour = 60 * 60;
          currentTime = date_now div 1000
      in if js_gt (Num currentTime) (js_sub (expiresAt this) (Num oneHour)) then
           (case refresh world this of
              (Inl e, this', tr) \<Rightarrow> (Inl e, this', Call_getValidToken # tr)
            | (Inr _, this', tr) \<Rightarrow> (Inr (accessToken this'), this', Call_getValidToken # tr))
         else (Inr (accessToken this), this, [Call_getValidToken]))"

section \<open>StravaClient\<close>

record 'd cache_entry =
  data :: 'd
  timestamp :: int

record 'd strava_client =
  tokenManager :: token_manager
  baseUrl :: string
  cache :: "string \<rightharpoonup> 'd cache_entry"
  cacheDuration :: int

text \<open>The field initialisers and the constructor of the class: an empty cache, five minutes.\<close>

definition new_client :: "token_manager \<Rightarrow> 'd strava_client" where
  "new_client tm =
     \<lparr> tokenManager = tm,
       baseUrl = ''https://www.strava.com/api/v3'',
       cache = Map.empty,
       cacheDuration = 5 * 60 * 1000 \<rparr>"

text \<open>
  The cache read at the head of \<open>request\<close>: \<open>this.cache.get(cacheKey)\<close> followed by the
  test \<open>cached && Date.now() - cached.timestamp < this.cacheDuration\<close>. An entry is an
  object, hence truthy, so the test is on the age alone. Nothing is removed.
\<close>

definition cache_get :: "'d strava_client \<Rightarrow> string \<Rightarrow> int \<Rightarrow> 'd option" where
  "cache_get this cacheKey date_now =
     (case cache this cacheKey of
        None \<Rightarrow> None
      | Some cached \<Rightarrow>
          if date_now - timestamp cached < cacheDuration this then Some (data cached) else None)"

text \<open>The cache write at the end of \<open>request\<close>: \<open>this.cache.set(cacheKey, { data, timestamp })\<close>.\<close>

definition cache_put :: "'d strava_client \<Rightarrow> string \<Rightarrow> 'd \<Rightarrow> int \<Rightarrow> 'd strava_client" where
  "cache_put this cacheKey d date_now =
     this \<lparr> cache := (cache this)(cacheKey \<mapsto> \<lparr> data = d, timestamp = date_now \<rparr>) \<rparr>"

definition data_request :: "'d strava_client \<Rightarrow> string \<Rightarrow> string \<Rightarrow> http_request" where
  "data_request this endpoint token =
     \<lparr> req_method = ''GET'',
       req_url = baseUrl this @ endpoint,
       req_headers = [(''Authorization'', ''Bearer '' @ token)],
       req_body = None \<rparr>"

text \<open>
  \<open>request\<close> reads the clock up to three times: at the cache test (\<open>t_check\<close>), inside
  \<open>getValidToken\<close> (\<open>t_token\<close>) and when it stores the result (\<open>t_store\<close>). Time passes
  while the call awaits the network, so the three readings are separate arguments.
  The token manager is the object the client refers to; its new state is kept in the
  client whatever the outcome of the data call.
\<close>

definition request ::
  "'d env \<Rightarrow> 'd strava_client \<Rightarrow> string \<Rightarrow> bool \<Rightarrow> int \<Rightarrow> int \<Rightarrow> int
     \<Rightarrow> (exn + 'd) \<times> 'd strava_client \<times> event list" where
  "request world this endpoint useCache t_check t_token t_store =
     (let cacheKey = endpoint in
      case (if useCache then cache_get this cacheKey t_check else None) of
        Some d \<Rightarrow> (Inr d, this, [])
      | None \<Rightarrow>
          (case getValidToken world (tokenManager this) t_token of
             (Inl e, tm', tr) \<Rightarrow> (Inl e, this \<lparr> tokenManager := tm' \<rparr>, tr)
           | (Inr token, tm', tr) \<Rightarrow>
               (let this1 = this \<lparr> tokenManager := tm' \<rparr>;
                    req = data_request this1 endpoint token;
                    tr1 = tr @ [Fetch req]
                in case fetch world req of
                     Inl e \<Rightarrow> (Inl e, this1, tr1)
                   | Inr response \<Rightarrow>
                       if \<not> ok response then
                         (Inl (Error (''Strava API error: '' @ toString_nat (status response)
                                       @ '' '' @ body_text response)), this1, tr1)
                       else
                         (case json_data world (body_text response) of
                            Inl e \<Rightarrow> (Inl e, this1, tr1)
                          | Inr d \<Rightarrow>
                              (Inr d,
                               if useCache then cache_put this1 cacheKey d t_store else this1,
                               tr1)))))"

section \<open>The webhook event buffer\<close>

text \<open>
  The event time of a stored event is the \<open>event_time\<close> of the webhook payload times 1000.
  The receiver does not check the payload, so the product is any number, \<open>NaN\<close> included
  (a payload without a numeric \<open>event_time\<close>).
\<close>

record webhook_event =
  ev_type :: string
  activityId :: int
  athleteId :: int
  ev_timestamp :: int
  eventTime :: jsnum

text \<open>
  One call of \<open>addWebhookEvent\<close>: its four arguments and the reading of \<open>Date.now()\<close>
  it makes.
\<close>

record add_call =
  arg_type :: string
  arg_activityId :: int
  arg_athleteId :: int
  arg_eventTime :: jsnum
  call_time :: int

definition new_event :: "add_call \<Rightarrow> webhook_event" where
  "new_event c =
     \<lparr> ev_type = arg_type c,
       activityId = arg_activityId c,
       athleteId = arg_athleteId c,
       ev_timestamp = call_time c,
       eventTime = js_mul (arg_eventTime c) (Num 1000) \<rparr>"

text \<open>\<open>unshift\<close> puts the event at the front; \<open>pop\<close> drops the last element.\<close>

definition addWebhookEvent :: "webhook_event list \<Rightarrow> add_call \<Rightarrow> webhook_event list" where
  "addWebhookEvent recentEvents c =
     (let recentEvents1 = new_event c # recentEvents
      in if length recentEvents1 > 100 then butlast recentEvents1 else recentEvents1)"

text \<open>The buffer after a sequence of calls, the first call first, from the empty list.\<close>

definition after_calls :: "add_call list \<Rightarrow> webhook_event list" where
  "after_calls cs = foldl addWebhookEvent [] cs"

text \<open>
  \<open>xs.slice(0, end)\<close>: a negative \<open>end\<close> counts from the end of the array, and the
  bounds are clamped to the array.
\<close>

definition slice0 :: "'a list \<Rightarrow> int \<Rightarrow> 'a list" where
  "slice0 xs e =
     (let len = int (length xs);
          final = (if e < 0 then max (len + e) 0 else min e len)
      in take (nat final) xs)"

text \<open>The entry the handler builds for one selected event; either date may be invalid.\<close>

record formatted_event =
  out_type :: string
  out_activityId :: int
  out_athleteId :: int
  out_eventTime :: string
  out_receivedAt :: string

definition format_event :: "webhook_event \<Rightarrow> exn + formatted_event" where
  "format_event event =
     (case toISOString (eventTime event) of
        Inl e \<Rightarrow> Inl e
      | Inr et \<Rightarrow>
          (case toISOString (Num (ev_timestamp event)) of
             Inl e \<Rightarrow> Inl e
           | Inr ra \<Rightarrow>
               Inr \<lparr> out_type = ev_type event,
                     out_activityId = activityId event,
                     out_athleteId = athleteId event,
                     out_eventTime = et,
                     out_receivedAt = ra \<rparr>))"

text \<open>\<open>events.map(...)\<close>: the events are rendered in order, and the first throw ends the map.\<close>

fun format_events :: "webhook_event list \<Rightarrow> exn + formatted_event list" where
  "format_events [] = Inr []"
| "format_events (event # rest) =
     (case format_event event of
        Inl e \<Rightarrow> Inl e
      | Inr f \<Rightarrow> (case format_events rest of Inl e \<Rightarrow> Inl e | Inr fs \<Rightarrow> Inr (f # fs)))"

text \<open>
  What the tool call answers. \<open>Tool_text\<close> is the normal answer, its text the JSON
  rendering of the object held here; \<open>Tool_error\<close> is the answer built by the \<open>catch\<close> of
  the call handler, with \<open>isError: true\<close> and the text held here.
\<close>

record events_payload =
  count :: nat
  events :: "formatted_event list"

datatype tool_result = Tool_text events_payload | Tool_error string

text \<open>
  The \<open>strava_get_recent_events\<close> case of the call handler:
  \<open>limit = args?.limit || 10\<close>, \<open>events = recentEvents.slice(0, Math.min(limit, 100))\<close>,
  then the rendering of each selected event. The argument is absent or an integer (the
  tool's schema declares a number); \<open>||\<close> replaces an absent limit and the falsy number 0
  by 10. An exception thrown while rendering is caught by the handler and becomes an
  error answer with the text \<open>Error: \<close> followed by its message.
\<close>

definition strava_get_recent_events :: "int option \<Rightarrow> webhook_event list \<Rightarrow> tool_result" where
  "strava_get_recent_events arg_limit recentEvents =
     (let limit = (case arg_limit of None \<Rightarrow> 10 | Some l \<Rightarrow> if l = 0 then 10 else l);
          events = slice0 recentEvents (min limit 100)
      in case format_events events of
           Inl error \<Rightarrow> Tool_error (''Error: '' @ message error)
         | Inr formattedEvents \<Rightarrow>
             Tool_text \<lparr> count = length formattedEvents, events = formattedEvents \<rparr>)"

text \<open>
  An event is renderable when both of its times are valid dates; \<open>rendered\<close> is the entry
  the handler builds for a renderable event.
\<close>

definition renderable :: "webhook_event \<Rightarrow> bool" where
  "renderable event = (valid_time (eventTime event) \<and> valid_time (Num (ev_timestamp event)))"

definition time_value :: "jsnum \<Rightarrow> int" where
  "time_value t = (case t of NaN \<Rightarrow> 0 | Num ms \<Rightarrow> ms)"

definition rendered :: "webhook_event \<Rightarrow> formatted_event" where
  "rendered event =
     \<lparr> out_type = ev_type event,
       out_activityId = activityId event,
       out_athleteId = athleteId event,
       out_eventTime = iso_string (time_value (eventTime event)),
       out_receivedAt = iso_string (ev_timestamp event) \<rparr>"

section \<open>Concrete inputs\<close>

text \<open>A process environment with the client identity and both tokens, but no expiry.\<close>

definition env_no_expiry :: "string \<rightharpoonup> string" where
  "env_no_expiry =
     [''STRAVA_CLIENT_ID'' \<mapsto> ''12345'', ''STRAVA_CLIENT_SECRET'' \<mapsto> ''shh'',
      ''STRAVA_ACCESS_TOKEN'' \<mapsto> ''at'', ''STRAVA_REFRESH_TOKEN'' \<mapsto> ''rt'']"

definition example_manager :: token_manager where
  "example_manager =
     \<lparr> accessToken = ''old-access'', refreshToken = ''old-refresh'',
       expiresAt = Num 1700007200, clientId = ''12345'', clientSecret = ''shh'' \<rparr>"

definition example_token_data :: token_data where
  "example_token_data =
     \<lparr> access_token = ''new-access'', refresh_token = ''new-refresh'',
       expires_at = 1700030000 \<rparr>"

text \<open>
  An upstream that accepts everything: the token endpoint answers 200 with a body that
  parses to the new credentials, every other request answers 200 with a body that is its
  own payload.
\<close>

definition world_ok :: "string env" where
  "world_ok =
     \<lparr> fetch = (\<lambda>req. if req_method req = ''POST''
                       then Inr \<lparr> status = 200, body_text = ''token-response'' \<rparr>
                       else Inr \<lparr> status = 200, body_text = ''athlete-1'' \<rparr>),
       json_token = (\<lambda>b. if b = ''token-response'' then Inr example_token_data
                          else Inl (SyntaxError ''Unexpected token'')),
       json_data = (\<lambda>b. Inr b) \<rparr>"

text \<open>An upstream that rejects everything with 401.\<close>

definition world_401 :: "string env" where
  "world_401 =
     \<lparr> fetch = (\<lambda>req. Inr \<lparr> status = 401, body_text = ''Unauthorized'' \<rparr>),
       json_token = (\<lambda>b. Inr example_token_data),
       json_data = (\<lambda>b. Inr b) \<rparr>"

definition example_client :: "string strava_client" where
  "example_client = new_client example_manager"

definition example_call :: add_call where
  "example_call =
     \<lparr> arg_type = ''create'', arg_activityId = 7, arg_athleteId = 1,
       arg_eventTime = Num 1700000000, call_time = 1700000000500 \<rparr>"

text \<open>A webhook payload whose event time, in milliseconds, is beyond the range of dates.\<close>

definition late_call :: add_call where
  "late_call = example_call \<lparr> arg_eventTime := Num 8640000000001 \<rparr>"

section \<open>The token manager: validity check and refresh\<close>

lemma refresh_trace:
  "snd (snd (refresh world this)) = [Call_refresh, Fetch (refresh_request this)]"
  by (simp add: refresh_def Let_def split: sum.splits)

lemma getValidToken_fetches:
  "length (filter is_fetch (snd (snd (getValidToken world this t)))) \<le> 1"
  using refresh_trace[of world this]
  by (auto simp add: getValidToken_def Let_def is_fetch_def split: prod.splits sum.splits)

text \<open>
  C1. When the clock, in seconds, is at most \<open>expires_at - 3600\<close>, \<open>getValidToken\<close>
  returns the stored access token; the token manager is unchanged and the trace holds the
  invocation alone: no refresh, no network call.
\<close>

theorem getValidToken_fresh:
  assumes "expiresAt this = Num e" and "date_now div 1000 \<le> e - 3600"
  shows "getValidToken world this date_now = (Inr (accessToken this), this, [Call_getValidToken])"
  using assms by (simp add: getValidToken_def)

theorem getValidToken_fresh_witness:
  "expiresAt example_manager = Num 1700007200
   \<and> (1700000000000 :: int) div 1000 \<le> 1700007200 - 3600
   \<and> getValidToken world_401 example_manager 1700000000000 =
       (Inr ''old-access'', example_manager, [Call_getValidToken])"
proof -
  have e: "expiresAt example_manager = Num 1700007200"
    by (simp add: example_manager_def)
  have t: "(1700000000000 :: int) div 1000 \<le> 1700007200 - 3600"
    by simp
  have "accessToken example_manager = ''old-access''"
    by (simp add: example_manager_def)
  with getValidToken_fresh [OF e t, of world_401] e t show ?thesis
    by simp
qed

text \<open>
  C2. When the clock, in seconds, is beyond \<open>expires_at - 3600\<close>, \<open>getValidToken\<close> makes
  exactly one network call, the refresh request built from the stored credentials, and
  when the response is 2xx and its body parses, the token returned is the
  \<open>access_token\<close> of that response.
\<close>

theorem getValidToken_expiring:
  assumes "expiresAt this = Num e" and "date_now div 1000 > e - 3600"
  shows "snd (snd (getValidToken world this date_now)) =
           [Call_getValidToken, Call_refresh, Fetch (refresh_request this)]
       \<and> (fetch world (refresh_request this) = Inr r \<longrightarrow> ok r \<longrightarrow>
              json_token world (body_text r) = Inr d \<longrightarrow>
              fst (getValidToken world this date_now) = Inr (access_token d))"
proof
  show "snd (snd (getValidToken world this date_now)) =
           [Call_getValidToken, Call_refresh, Fetch (refresh_request this)]"
    using assms refresh_trace[of world this]
    by (auto simp add: getValidToken_def Let_def split: prod.splits sum.splits)
next
  show "fetch world (refresh_request this) = Inr r \<longrightarrow> ok r \<longrightarrow>
              json_token world (body_text r) = Inr d \<longrightarrow>
              fst (getValidToken world this date_now) = Inr (access_token d)"
    using assms by (simp add: getValidToken_def refresh_def Let_def)
qed

theorem getValidToken_expiring_witness:
  "expiresAt example_manager = Num 1700007200
   \<and> (1700005000000 :: int) div 1000 > 1700007200 - 3600
   \<and> snd (snd (getValidToken world_ok example_manager 1700005000000)) =
       [Call_getValidToken, Call_refresh, Fetch (refresh_request example_manager)]
   \<and> fst (getValidToken world_ok example_manager 1700005000000) = Inr ''new-access''"
proof -
  have e: "expiresAt example_manager = Num 1700007200"
    by (simp add: example_manager_def)
  have t: "(1700005000000 :: int) div 1000 > 1700007200 - 3600"
    by simp
  have f: "fetch world_ok (refresh_request example_manager) = Inr \<lparr> status = 200, body_text = ''token-response'' \<rparr>"
    by (simp add: world_ok_def refresh_request_def)
  have o: "ok \<lparr> status = 200, body_text = ''token-response'' \<rparr>"
    by (simp add: ok_def)
  have j: "json_token world_ok (body_text \<lparr> status = 200, body_text = ''token-response'' \<rparr>) = Inr example_token_data"
    by (simp add: world_ok_def refresh_request_def)
  have a: "access_token example_token_data = ''new-access''"
    by (simp add: example_token_data_def)
  from getValidToken_expiring [OF e t, of world_ok "\<lparr> status = 200, body_text = ''token-response'' \<rparr>" example_token_data]
    e t f o j a show ?thesis
    by simp
qed

text \<open>
  C3. When the token endpoint answers with a status outside 200..299, \<open>refresh\<close> throws an
  error whose message holds the status and the body of the response, and the token
  manager is unchanged: access token, refresh token and expiry keep their values.
\<close>

theorem refresh_non_2xx:
  assumes "fetch world (refresh_request this) = Inr r" and "\<not> ok r"
  shows "refresh world this =
           (Inl (Error (''Failed to refresh token: '' @ toString_nat (status r)
                         @ '' '' @ body_text r)),
            this, [Call_refresh, Fetch (refresh_request this)])"
  using assms by (simp add: refresh_def Let_def)

theorem refresh_non_2xx_witness:
  "fetch world_401 (refresh_request example_manager) = Inr \<lparr> status = 401, body_text = ''Unauthorized'' \<rparr>
   \<and> \<not> ok \<lparr> status = 401, body_text = ''Unauthorized'' \<rparr>
   \<and> refresh world_401 example_manager =
       (Inl (Error ''Failed to refresh token: 401 Unauthorized''), example_manager,
        [Call_refresh, Fetch (refresh_request example_manager)])"
proof -
  have f: "fetch world_401 (refresh_request example_manager) = Inr \<lparr> status = 401, body_text = ''Unauthorized'' \<rparr>"
    by (simp add: world_401_def)
  have o: "\<not> ok \<lparr> status = 401, body_text = ''Unauthorized'' \<rparr>"
    by (simp add: ok_def)
  have s: "toString_nat 401 = ''401''"
    by code_simp
  from refresh_non_2xx [OF f o] f o s show ?thesis
    by simp
qed

text \<open>
  C4. When the token endpoint answers 2xx and the body parses, \<open>refresh\<close> replaces the
  access token, the refresh token and the expiry by the three values of the response,
  together; the client identity is untouched, the old refresh token is gone, and the
  next refresh request carries the new one.
\<close>

theorem refresh_success:
  assumes "fetch world (refresh_request this) = Inr r" and "ok r"
    and "json_token world (body_text r) = Inr d"
  shows "refresh world this =
           (Inr (),
            \<lparr> accessToken = access_token d, refreshToken = refresh_token d,
              expiresAt = Num (expires_at d),
              clientId = clientId this, clientSecret = clientSecret this \<rparr>,
            [Call_refresh, Fetch (refresh_request this)])
       \<and> req_body (refresh_request (fst (snd (refresh world this)))) =
           Some (Body (clientId this) (clientSecret this) (refresh_token d) ''refresh_token'')"
  using assms by (simp add: refresh_def Let_def refresh_request_def)

theorem refresh_success_witness:
  "fetch world_ok (refresh_request example_manager) = Inr \<lparr> status = 200, body_text = ''token-response'' \<rparr>
   \<and> ok \<lparr> status = 200, body_text = ''token-response'' \<rparr>
   \<and> json_token world_ok (body_text \<lparr> status = 200, body_text = ''token-response'' \<rparr>) = Inr example_token_data
   \<and> refresh world_ok example_manager =
       (Inr (),
        \<lparr> accessToken = ''new-access'', refreshToken = ''new-refresh'',
          expiresAt = Num 1700030000, clientId = ''12345'', clientSecret = ''shh'' \<rparr>,
        [Call_refresh, Fetch (refresh_request example_manager)])"
proof -
  have f: "fetch world_ok (refresh_request example_manager) = Inr \<lparr> status = 200, body_text = ''token-response'' \<rparr>"
    by (simp add: world_ok_def refresh_request_def)
  have o: "ok \<lparr> status = 200, body_text = ''token-response'' \<rparr>"
    by (simp add: ok_def)
  have j: "json_token world_ok (body_text \<lparr> status = 200, body_text = ''token-response'' \<rparr>) = Inr example_token_data"
    by (simp add: world_ok_def refresh_request_def)
  from refresh_success [OF f o j] f o j show ?thesis
    by (simp add: example_token_data_def example_manager_def)
qed

section \<open>The constructor of the token manager\<close>

lemma env_or_empty: "(env_or penv name [] = []) = unset penv name"
  by (auto simp add: env_or_def unset_def split: option.splits)

lemma env_or_set: "\<not> unset penv name \<Longrightarrow> env_or penv name dflt = the (penv name)"
  by (auto simp add: env_or_def unset_def split: option.splits)

lemma env_or_unset: "unset penv name \<Longrightarrow> env_or penv name dflt = dflt"
  by (auto simp add: env_or_def unset_def split: option.splits)

lemma parseInt_zero: "parseInt ''0'' = Num 0"
  by (simp add: parseInt_def is_space_def is_digit_def digit_val_def digits_value_def)

text \<open>
  C5. The constructor throws exactly when the client identifier, the client secret, the
  initial access token or the initial refresh token is unset. The initial expiry is not
  required: when it is unset the constructor reads it as 0.
\<close>

theorem constructor_required:
  "constructor penv =
     (if unset penv ''STRAVA_CLIENT_ID'' \<or> unset penv ''STRAVA_CLIENT_SECRET'' then
        Inl (Error ''STRAVA_CLIENT_ID and STRAVA_CLIENT_SECRET must be set'')
      else if unset penv ''STRAVA_ACCESS_TOKEN'' \<or> unset penv ''STRAVA_REFRESH_TOKEN'' then
        Inl (Error ''STRAVA_ACCESS_TOKEN and STRAVA_REFRESH_TOKEN must be set. Run setup-auth.ts first.'')
      else
        Inr \<lparr> accessToken = the (penv ''STRAVA_ACCESS_TOKEN''),
              refreshToken = the (penv ''STRAVA_REFRESH_TOKEN''),
              expiresAt = (if unset penv ''STRAVA_EXPIRES_AT'' then Num 0
                           else parseInt (the (penv ''STRAVA_EXPIRES_AT''))),
              clientId = the (penv ''STRAVA_CLIENT_ID''),
              clientSecret = the (penv ''STRAVA_CLIENT_SECRET'') \<rparr>)"
proof -
  have e: "parseInt (env_or penv ''STRAVA_EXPIRES_AT'' ''0'') =
             (if unset penv ''STRAVA_EXPIRES_AT'' then Num 0
              else parseInt (the (penv ''STRAVA_EXPIRES_AT'')))"
    by (simp add: env_or_set env_or_unset parseInt_zero)
  show ?thesis
    unfolding constructor_def Let_def e
    by (simp add: env_or_empty env_or_set)
qed

text \<open>
  With the client identity and both tokens set and no expiry in the environment, the
  constructor succeeds, with the expiry 0.
\<close>

theorem constructor_expiry_counterexample:
  "env_no_expiry ''STRAVA_EXPIRES_AT'' = None
   \<and> constructor env_no_expiry =
       Inr \<lparr> accessToken = ''at'', refreshToken = ''rt'', expiresAt = Num 0,
             clientId = ''12345'', clientSecret = ''shh'' \<rparr>"
  by (simp add: env_no_expiry_def constructor_def env_or_def Let_def parseInt_zero)

section \<open>The client: cache and upstream requests\<close>

lemma cache_get_put:
  "cache_get (cache_put this k v t_put) k t_read =
     (if t_read - t_put < cacheDuration this then Some v else None)"
  by (simp add: cache_get_def cache_put_def)

lemma request_failure_keeps_cache:
  "request world this endpoint useCache t1 t2 t3 = (Inl e, this', tr) \<Longrightarrow> cache this' = cache this"
  by (auto simp add: request_def Let_def split: option.splits prod.splits sum.splits if_splits)

lemma request_miss_trace:
  "(if useCache then cache_get this endpoint t1 else None) = None \<Longrightarrow>
   snd (snd (request world this endpoint useCache t1 t2 t3)) \<noteq> []"
  by (auto simp add: request_def Let_def getValidToken_def
      split: option.splits prod.splits sum.splits if_splits)

lemma request_miss_success:
  assumes "request world this k True t1 t2 t3 = (Inr v, this', tr)" and "tr \<noteq> []"
  shows "\<exists>tm'. this' = cache_put (this \<lparr> tokenManager := tm' \<rparr>) k v t3"
  using assms
  by (auto simp add: request_def Let_def split: option.splits prod.splits sum.splits if_splits)

text \<open>
  C6. When the cache holds an entry for the endpoint and its age is below the cache
  duration, \<open>request\<close> with \<open>useCache\<close> returns the payload of the entry; the trace is
  empty (the token manager is not invoked, nothing is fetched) and the client, with its
  token manager and its cache, is unchanged.
\<close>

theorem request_cache_hit:
  assumes "cache this endpoint = Some entry"
    and "t_check - timestamp entry < cacheDuration this"
  shows "request world this endpoint True t_check t_token t_store = (Inr (data entry), this, [])"
  using assms by (simp add: request_def cache_get_def)

theorem request_cache_hit_witness:
  "cache (cache_put example_client ''/athlete'' ''athlete-1'' 1700000000000) ''/athlete'' =
       Some \<lparr> data = ''athlete-1'', timestamp = 1700000000000 \<rparr>
   \<and> 1700000299999 - timestamp \<lparr> data = ''athlete-1'', timestamp = 1700000000000 \<rparr>
       < cacheDuration (cache_put example_client ''/athlete'' ''athlete-1'' 1700000000000)
   \<and> request world_401 (cache_put example_client ''/athlete'' ''athlete-1'' 1700000000000)
         ''/athlete'' True 1700000299999 1700000299999 1700000300000 =
       (Inr ''athlete-1'', cache_put example_client ''/athlete'' ''athlete-1'' 1700000000000, [])"
proof -
  let ?c = "cache_put example_client ''/athlete'' ''athlete-1'' 1700000000000"
  let ?e = "\<lparr> data = ''athlete-1'', timestamp = 1700000000000 \<rparr>"
  have h: "cache ?c ''/athlete'' = Some ?e"
    by (simp add: cache_put_def)
  have a: "1700000299999 - timestamp ?e < cacheDuration ?c"
    by (simp add: cache_put_def example_client_def new_client_def)
  from request_cache_hit [OF h a, of world_401 1700000299999 1700000300000] h a
  show ?thesis by simp
qed

text \<open>
  C7. When the data request is made (the cache is not consulted or misses, and the token
  manager gives a token) and the upstream answers with a status outside 200..299,
  \<open>request\<close> throws an error whose message holds the status and the body text; the cache
  is as before, and the trace is that of the single \<open>getValidToken\<close> call, with at most
  one refresh request, followed by the one data request: nothing is tried again.
\<close>

theorem request_non_2xx:
  assumes miss: "(if useCache then cache_get this endpoint t_check else None) = None"
    and tok: "getValidToken world (tokenManager this) t_token = (Inr token, tm', tr)"
    and resp: "fetch world (data_request (this \<lparr> tokenManager := tm' \<rparr>) endpoint token) = Inr r"
    and bad: "\<not> ok r"
  shows "request world this endpoint useCache t_check t_token t_store =
           (Inl (Error (''Strava API error: '' @ toString_nat (status r) @ '' '' @ body_text r)),
            this \<lparr> tokenManager := tm' \<rparr>,
            tr @ [Fetch (data_request (this \<lparr> tokenManager := tm' \<rparr>) endpoint token)])
       \<and> cache (fst (snd (request world this endpoint useCache t_check t_token t_store))) = cache this
       \<and> length (filter is_fetch tr) \<le> 1"
proof -
  have "length (filter is_fetch (snd (snd (getValidToken world (tokenManager this) t_token)))) \<le> 1"
    by (rule getValidToken_fetches)
  then have "length (filter is_fetch tr) \<le> 1"
    using tok by simp
  then show ?thesis
    using miss tok resp bad by (simp add: request_def Let_def)
qed

theorem request_non_2xx_witness:
  "cache_get example_client ''/athlete'' 1700000000000 = None
   \<and> getValidToken world_401 (tokenManager example_client) 1700000000000 =
       (Inr ''old-access'', example_manager, [Call_getValidToken])
   \<and> fetch world_401 (data_request (example_client \<lparr> tokenManager := example_manager \<rparr>)
         ''/athlete'' ''old-access'') = Inr \<lparr> status = 401, body_text = ''Unauthorized'' \<rparr>
   \<and> \<not> ok \<lparr> status = 401, body_text = ''Unauthorized'' \<rparr>
   \<and> request world_401 example_client ''/athlete'' True 1700000000000 1700000000000 1700000000500 =
       (Inl (Error ''Strava API error: 401 Unauthorized''),
        example_client \<lparr> tokenManager := example_manager \<rparr>,
        [Call_getValidToken,
         Fetch (data_request (example_client \<lparr> tokenManager := example_manager \<rparr>)
                  ''/athlete'' ''old-access'')])
   \<and> cache (fst (snd (request world_401 example_client ''/athlete'' True
         1700000000000 1700000000000 1700000000500))) ''/athlete'' = None"
proof -
  have m: "(if True then cache_get example_client ''/athlete'' 1700000000000 else None) = None"
    by (simp add: cache_get_def example_client_def new_client_def)
  have g: "getValidToken world_401 (tokenManager example_client) 1700000000000 =
             (Inr ''old-access'', example_manager, [Call_getValidToken])"
    by (simp add: getValidToken_def example_client_def new_client_def example_manager_def)
  have f: "fetch world_401 (data_request (example_client \<lparr> tokenManager := example_manager \<rparr>)
             ''/athlete'' ''old-access'') = Inr \<lparr> status = 401, body_text = ''Unauthorized'' \<rparr>"
    by (simp add: world_401_def)
  have o: "\<not> ok \<lparr> status = 401, body_text = ''Unauthorized'' \<rparr>"
    by (simp add: ok_def)
  have s: "toString_nat 401 = ''401''"
    by code_simp
  have c: "cache example_client ''/athlete'' = None"
    by (simp add: example_client_def new_client_def)
  from request_non_2xx [where t_store = 1700000000500, OF m g f o] m g f o s c
  show ?thesis by simp
qed

text \<open>
  C8. The cache write stores the payload under the key with the time of the write,
  whatever was there before, and a read of the key less than the cache duration later
  gives that payload. In \<open>request\<close>: after a call that went upstream and returned \<open>v\<close>,
  a second call for the same endpoint whose cache test comes less than the cache
  duration after the store returns \<open>v\<close> without any token check or network call.
\<close>

theorem cache_round_trip:
  "cache (cache_put this k v t_put) k = Some \<lparr> data = v, timestamp = t_put \<rparr>
   \<and> (t_read - t_put < cacheDuration this \<longrightarrow>
        cache_get (cache_put this k v t_put) k t_read = Some v)
   \<and> (request world this k True t1 t2 t_put = (Inr v, this', tr) \<longrightarrow> tr \<noteq> [] \<longrightarrow>
        t_read - t_put < cacheDuration this \<longrightarrow>
        request world2 this' k True t_read t5 t6 = (Inr v, this', []))"
proof (intro conjI impI)
  show "cache (cache_put this k v t_put) k = Some \<lparr> data = v, timestamp = t_put \<rparr>"
    by (simp add: cache_put_def)
next
  assume "t_read - t_put < cacheDuration this"
  then show "cache_get (cache_put this k v t_put) k t_read = Some v"
    by (simp add: cache_get_put)
next
  assume r: "request world this k True t1 t2 t_put = (Inr v, this', tr)"
    and n: "tr \<noteq> []" and a: "t_read - t_put < cacheDuration this"
  from request_miss_success [OF r n]
  obtain tm' where t: "this' = cache_put (this \<lparr> tokenManager := tm' \<rparr>) k v t_put"
    by blast
  have "cache_get this' k t_read = Some v"
    unfolding t using a by (simp add: cache_get_put)
  then show "request world2 this' k True t_read t5 t6 = (Inr v, this', [])"
    by (simp add: request_def)
qed

theorem cache_round_trip_witness:
  "request world_ok example_client ''/athlete'' True 1700000000000 1700000000000 1700000000500 =
       (Inr ''athlete-1'', cache_put example_client ''/athlete'' ''athlete-1'' 1700000000500,
        [Call_getValidToken, Fetch (data_request example_client ''/athlete'' ''old-access'')])
   \<and> (1700000300499 :: int) - 1700000000500 < cacheDuration example_client
   \<and> cache_get (cache_put example_client ''/athlete'' ''athlete-1'' 1700000000500)
         ''/athlete'' 1700000300499 = Some ''athlete-1''
   \<and> request world_401 (cache_put example_client ''/athlete'' ''athlete-1'' 1700000000500)
         ''/athlete'' True 1700000300499 1700000300499 1700000300600 =
       (Inr ''athlete-1'', cache_put example_client ''/athlete'' ''athlete-1'' 1700000000500, [])"
proof -
  let ?c = "cache_put example_client ''/athlete'' ''athlete-1'' 1700000000500"
  let ?tr = "[Call_getValidToken, Fetch (data_request example_client ''/athlete'' ''old-access'')]"
  have g: "getValidToken world_ok (tokenManager example_client) 1700000000000 =
             (Inr ''old-access'', example_manager, [Call_getValidToken])"
    by (simp add: getValidToken_def example_client_def new_client_def example_manager_def)
  have u: "example_client \<lparr> tokenManager := example_manager \<rparr> = example_client"
    by (simp add: example_client_def new_client_def)
  have m: "cache_get example_client ''/athlete'' 1700000000000 = None"
    by (simp add: cache_get_def example_client_def new_client_def)
  have r: "request world_ok example_client ''/athlete'' True 1700000000000 1700000000000
             1700000000500 = (Inr ''athlete-1'', ?c, ?tr)"
    by (simp add: request_def Let_def m g) (simp add: world_ok_def ok_def u data_request_def)
  have n: "?tr \<noteq> []"
    by simp
  have a: "(1700000300499 :: int) - 1700000000500 < cacheDuration example_client"
    by (simp add: example_client_def new_client_def)
  from cache_round_trip [of example_client "''/athlete''" "''athlete-1''" 1700000000500 1700000300499
      world_ok 1700000000000 1700000000000 ?c ?tr world_401 1700000300499 1700000300600]
    r n a show ?thesis
    by simp
qed

text \<open>
  C9. A read of the key once the cache duration or more has passed since the write
  reports a miss, while the map still holds the entry written. In \<open>request\<close> the stale
  entry sends the call to the token manager, and a call that fails leaves the map, stale
  entry included, as it was.
\<close>

theorem cache_expiry:
  assumes "t_read - t_put \<ge> cacheDuration this"
  shows "cache_get (cache_put this k v t_put) k t_read = None
       \<and> cache (cache_put this k v t_put) k = Some \<lparr> data = v, timestamp = t_put \<rparr>
       \<and> snd (snd (request world (cache_put this k v t_put) k True t_read t2 t3)) \<noteq> []
       \<and> (isl (fst (request world (cache_put this k v t_put) k True t_read t2 t3)) \<longrightarrow>
            cache (fst (snd (request world (cache_put this k v t_put) k True t_read t2 t3))) k =
              Some \<lparr> data = v, timestamp = t_put \<rparr>)"
proof -
  let ?c = "cache_put this k v t_put"
  have miss: "cache_get ?c k t_read = None"
    using assms by (simp add: cache_get_put)
  have entry: "cache ?c k = Some \<lparr> data = v, timestamp = t_put \<rparr>"
    by (simp add: cache_put_def)
  have tr: "snd (snd (request world ?c k True t_read t2 t3)) \<noteq> []"
    by (rule request_miss_trace) (simp add: miss)
  have keep: "cache (fst (snd (request world ?c k True t_read t2 t3))) k =
                Some \<lparr> data = v, timestamp = t_put \<rparr>"
    if "isl (fst (request world ?c k True t_read t2 t3))"
  proof -
    obtain res c' tr' where o: "request world ?c k True t_read t2 t3 = (res, c', tr')"
      by (cases "request world ?c k True t_read t2 t3") auto
    with that obtain e where "res = Inl e"
      by (cases res) auto
    with o have "cache c' = cache ?c"
      using request_failure_keeps_cache by blast
    with o entry show ?thesis by simp
  qed
  from miss entry tr keep show ?thesis by blast
qed

theorem cache_expiry_witness:
  "(1700000300000 :: int) - 1700000000000 \<ge> cacheDuration example_client
   \<and> cache_get (cache_put example_client ''/athlete'' ''athlete-1'' 1700000000000)
         ''/athlete'' 1700000300000 = None
   \<and> cache (cache_put example_client ''/athlete'' ''athlete-1'' 1700000000000) ''/athlete'' =
       Some \<lparr> data = ''athlete-1'', timestamp = 1700000000000 \<rparr>
   \<and> isl (fst (request world_401 (cache_put example_client ''/athlete'' ''athlete-1'' 1700000000000)
         ''/athlete'' True 1700000300000 1700000300000 1700000300500))
   \<and> cache (fst (snd (request world_401
         (cache_put example_client ''/athlete'' ''athlete-1'' 1700000000000)
         ''/athlete'' True 1700000300000 1700000300000 1700000300500))) ''/athlete'' =
       Some \<lparr> data = ''athlete-1'', timestamp = 1700000000000 \<rparr>"
proof -
  let ?c = "cache_put example_client ''/athlete'' ''athlete-1'' 1700000000000"
  have a: "(1700000300000 :: int) - 1700000000000 \<ge> cacheDuration example_client"
    by (simp add: example_client_def new_client_def)
  have g: "getValidToken world_401 (tokenManager ?c) 1700000300000 =
             (Inr ''old-access'', example_manager, [Call_getValidToken])"
    by (simp add: getValidToken_def cache_put_def example_client_def new_client_def
        example_manager_def)
  have m: "cache_get ?c ''/athlete'' 1700000300000 = None"
    by (simp add: cache_get_def cache_put_def example_client_def new_client_def)
  have i: "isl (fst (request world_401 ?c ''/athlete'' True 1700000300000 1700000300000
             1700000300500))"
    by (simp add: request_def Let_def m g) (simp add: world_401_def ok_def)
  from cache_expiry [OF a, of "''/athlete''" "''athlete-1''" world_401 1700000300000 1700000300500]
    a i show ?thesis
    by simp
qed

section \<open>The webhook event buffer and the recent-events tool\<close>

lemma addWebhookEvent_take:
  assumes "recentEvents = take 100 xs"
  shows "addWebhookEvent recentEvents c = take 100 (new_event c # xs)"
proof (cases "length xs \<ge> 100")
  case True
  then have "butlast (take 100 xs) = take 99 xs"
    by (simp add: butlast_take)
  with True assms show ?thesis
    by (auto simp add: addWebhookEvent_def Let_def)
next
  case False
  with assms show ?thesis
    by (simp add: addWebhookEvent_def Let_def)
qed

lemma after_calls_take: "after_calls cs = take 100 (rev (map new_event cs))"
proof (induction cs rule: rev_induct)
  case Nil
  show ?case by (simp add: after_calls_def)
next
  case (snoc c cs)
  have "after_calls (cs @ [c]) = addWebhookEvent (after_calls cs) c"
    by (simp add: after_calls_def)
  also have "\<dots> = take 100 (new_event c # rev (map new_event cs))"
    using snoc.IH by (rule addWebhookEvent_take)
  finally show ?case by simp
qed

lemma slice0_nonneg: "0 \<le> e \<Longrightarrow> slice0 xs e = take (nat e) xs"
  by (simp add: slice0_def Let_def min_def)

lemma format_event_renderable: "renderable event \<Longrightarrow> format_event event = Inr (rendered event)"
  by (cases "eventTime event")
    (simp_all add: renderable_def valid_time_def format_event_def toISOString_def rendered_def
      time_value_def)

lemma format_events_renderable:
  "list_all renderable evs \<Longrightarrow> format_events evs = Inr (map rendered evs)"
  by (induction evs) (simp_all add: format_event_renderable)

lemma format_event_invalid:
  "\<not> renderable event \<Longrightarrow> format_event event = Inl (RangeError ''Invalid time value'')"
  by (cases "eventTime event")
    (auto simp add: renderable_def valid_time_def format_event_def toISOString_def)

lemma format_events_invalid:
  "\<not> list_all renderable evs \<Longrightarrow> format_events evs = Inl (RangeError ''Invalid time value'')"
proof (induction evs)
  case Nil
  then show ?case by simp
next
  case (Cons ev evs)
  show ?case
  proof (cases "renderable ev")
    case True
    with Cons show ?thesis
      by (simp add: format_event_renderable)
  next
    case False
    then show ?thesis
      by (simp add: format_event_invalid)
  qed
qed

lemma recent_events_selected:
  assumes "0 \<le> n" and "list_all renderable (take (nat n) evs)"
    and "(case arg_limit of None \<Rightarrow> 10 | Some l \<Rightarrow> if l = 0 then 10 else l) = l'"
    and "min l' 100 = n"
  shows "strava_get_recent_events arg_limit evs =
           Tool_text \<lparr> count = length (take (nat n) evs), events = map rendered (take (nat n) evs) \<rparr>"
  using assms
  by (simp add: strava_get_recent_events_def Let_def slice0_nonneg format_events_renderable
      del: length_take)

lemma recent_events_invalid:
  assumes "0 \<le> n" and "\<not> list_all renderable (take (nat n) evs)"
    and "(case arg_limit of None \<Rightarrow> 10 | Some l \<Rightarrow> if l = 0 then 10 else l) = l'"
    and "min l' 100 = n"
  shows "strava_get_recent_events arg_limit evs = Tool_error ''Error: Invalid time value''"
  using assms
  by (simp add: strava_get_recent_events_def Let_def slice0_nonneg format_events_invalid)

text \<open>
  C10. After any sequence of \<open>addWebhookEvent\<close> calls the buffer is the newest 100
  events, the newest first, so it never holds more than 100. When the limit is absent
  or 0 the recent-events tool answers with the first 10 events of the buffer, and when
  the limit is a positive integer with the first \<open>min limit 100\<close>, each rendered and in
  the order of the buffer, together with their number; this provided every one of these
  events is renderable.
\<close>

theorem recent_events_buffer:
  "after_calls cs = take 100 (rev (map new_event cs))
   \<and> length (after_calls cs) \<le> 100
   \<and> (list_all renderable (take 10 (after_calls cs)) \<longrightarrow>
        strava_get_recent_events None (after_calls cs) =
          Tool_text \<lparr> count = length (take 10 (after_calls cs)),
                      events = map rendered (take 10 (after_calls cs)) \<rparr>
        \<and> strava_get_recent_events (Some 0) (after_calls cs) =
          Tool_text \<lparr> count = length (take 10 (after_calls cs)),
                      events = map rendered (take 10 (after_calls cs)) \<rparr>)
   \<and> (0 < l \<longrightarrow> list_all renderable (take (nat (min l 100)) (after_calls cs)) \<longrightarrow>
        strava_get_recent_events (Some l) (after_calls cs) =
          Tool_text \<lparr> count = length (take (nat (min l 100)) (after_calls cs)),
                      events = map rendered (take (nat (min l 100)) (after_calls cs)) \<rparr>)"
proof (intro conjI impI)
  show "after_calls cs = take 100 (rev (map new_event cs))"
    by (rule after_calls_take)
  then show "length (after_calls cs) \<le> 100"
    by simp
next
  assume r: "list_all renderable (take 10 (after_calls cs))"
  then have r': "list_all renderable (take (nat 10) (after_calls cs))"
    by simp
  have "strava_get_recent_events None (after_calls cs) =
          Tool_text \<lparr> count = length (take (nat 10) (after_calls cs)),
                      events = map rendered (take (nat 10) (after_calls cs)) \<rparr>"
    by (rule recent_events_selected [OF _ r', of _ 10]) simp_all
  then show "strava_get_recent_events None (after_calls cs) =
          Tool_text \<lparr> count = length (take 10 (after_calls cs)),
                      events = map rendered (take 10 (after_calls cs)) \<rparr>"
    by simp
  have "strava_get_recent_events (Some 0) (after_calls cs) =
          Tool_text \<lparr> count = length (take (nat 10) (after_calls cs)),
                      events = map rendered (take (nat 10) (after_calls cs)) \<rparr>"
    by (rule recent_events_selected [OF _ r', of _ 10]) simp_all
  then show "strava_get_recent_events (Some 0) (after_calls cs) =
          Tool_text \<lparr> count = length (take 10 (after_calls cs)),
                      events = map rendered (take 10 (after_calls cs)) \<rparr>"
    by simp
next
  assume p: "0 < l"
    and r: "list_all renderable (take (nat (min l 100)) (after_calls cs))"
  show "strava_get_recent_events (Some l) (after_calls cs) =
          Tool_text \<lparr> count = length (take (nat (min l 100)) (after_calls cs)),
                      events = map rendered (take (nat (min l 100)) (after_calls cs)) \<rparr>"
    by (rule recent_events_selected [OF _ r, of _ l]) (use p in simp_all)
qed

theorem recent_events_buffer_witness:
  "(0 :: int) < 1
   \<and> after_calls [example_call, example_call \<lparr> arg_activityId := 8 \<rparr>] =
       [new_event (example_call \<lparr> arg_activityId := 8 \<rparr>), new_event example_call]
   \<and> list_all renderable
        (take (nat (min 1 100)) (after_calls [example_call, example_call \<lparr> arg_activityId := 8 \<rparr>]))
   \<and> strava_get_recent_events (Some 1)
        (after_calls [example_call, example_call \<lparr> arg_activityId := 8 \<rparr>]) =
       Tool_text \<lparr> count = 1,
                   events = [\<lparr> out_type = ''create'', out_activityId = 8, out_athleteId = 1,
                               out_eventTime = ''2023-11-14T22:13:20.000Z'',
                               out_receivedAt = ''2023-11-14T22:13:20.500Z'' \<rparr>] \<rparr>"
proof -
  let ?cs = "[example_call, example_call \<lparr> arg_activityId := 8 \<rparr>]"
  have p: "(0 :: int) < 1"
    by simp
  have b: "after_calls ?cs =
             [new_event (example_call \<lparr> arg_activityId := 8 \<rparr>), new_event example_call]"
    by (simp add: after_calls_def addWebhookEvent_def Let_def)
  have t: "take (nat (min 1 100)) (after_calls ?cs) =
             [new_event (example_call \<lparr> arg_activityId := 8 \<rparr>)]"
    unfolding b by simp
  have r: "list_all renderable (take (nat (min 1 100)) (after_calls ?cs))"
    unfolding t
    by (simp add: renderable_def valid_time_def new_event_def example_call_def)
  have i1: "iso_string 1700000000000 = ''2023-11-14T22:13:20.000Z''"
    by code_simp
  have i2: "iso_string 1700000000500 = ''2023-11-14T22:13:20.500Z''"
    by code_simp
  have f: "rendered (new_event (example_call \<lparr> arg_activityId := 8 \<rparr>)) =
             \<lparr> out_type = ''create'', out_activityId = 8, out_athleteId = 1,
               out_eventTime = ''2023-11-14T22:13:20.000Z'',
               out_receivedAt = ''2023-11-14T22:13:20.500Z'' \<rparr>"
    by (simp add: rendered_def new_event_def example_call_def time_value_def i1 i2)
  from recent_events_buffer [of ?cs 1] p r
  have "strava_get_recent_events (Some 1) (after_calls ?cs) =
          Tool_text \<lparr> count = length (take (nat (min 1 100)) (after_calls ?cs)),
                      events = map rendered (take (nat (min 1 100)) (after_calls ?cs)) \<rparr>"
    by blast
  then have "strava_get_recent_events (Some 1) (after_calls ?cs) =
          Tool_text \<lparr> count = 1,
                      events = [\<lparr> out_type = ''create'', out_activityId = 8, out_athleteId = 1,
                                  out_eventTime = ''2023-11-14T22:13:20.000Z'',
                                  out_receivedAt = ''2023-11-14T22:13:20.500Z'' \<rparr>] \<rparr>"
    unfolding t by (simp add: f)
  with p b r show ?thesis
    by simp
qed

text \<open>
  With one event in the buffer and the limit 0, the tool answers with that event, where
  the first \<open>min 0 100\<close> events of the buffer are none. With one event whose event time is
  beyond the range of dates and the limit 1, the tool answers with an error and no event,
  where the first \<open>min 1 100\<close> events of the buffer are that event.
\<close>

theorem recent_events_counterexample:
  "strava_get_recent_events (Some 0) (after_calls [example_call]) =
       Tool_text \<lparr> count = 1,
                   events = [\<lparr> out_type = ''create'', out_activityId = 7, out_athleteId = 1,
                               out_eventTime = ''2023-11-14T22:13:20.000Z'',
                               out_receivedAt = ''2023-11-14T22:13:20.500Z'' \<rparr>] \<rparr>
   \<and> take (nat (min 0 100)) (after_calls [example_call]) = []
   \<and> strava_get_recent_events (Some 1) (after_calls [late_call]) =
       Tool_error ''Error: Invalid time value''
   \<and> take (nat (min 1 100)) (after_calls [late_call]) = [new_event late_call]"
proof -
  have i1: "iso_string 1700000000000 = ''2023-11-14T22:13:20.000Z''"
    by code_simp
  have i2: "iso_string 1700000000500 = ''2023-11-14T22:13:20.500Z''"
    by code_simp
  have a: "after_calls [example_call] = [new_event example_call]"
    by (simp add: after_calls_def addWebhookEvent_def Let_def)
  have b: "after_calls [late_call] = [new_event late_call]"
    by (simp add: after_calls_def addWebhookEvent_def Let_def)
  have f: "format_event (new_event example_call) =
             Inr \<lparr> out_type = ''create'', out_activityId = 7, out_athleteId = 1,
                   out_eventTime = ''2023-11-14T22:13:20.000Z'',
                   out_receivedAt = ''2023-11-14T22:13:20.500Z'' \<rparr>"
    by (simp add: format_event_def toISOString_def new_event_def example_call_def i1 i2)
  have g: "format_event (new_event late_call) = Inl (RangeError ''Invalid time value'')"
    by (simp add: format_event_def toISOString_def new_event_def late_call_def example_call_def)
  have "strava_get_recent_events (Some 0) [new_event example_call] =
          Tool_text \<lparr> count = 1,
                      events = [\<lparr> out_type = ''create'', out_activityId = 7, out_athleteId = 1,
                                  out_eventTime = ''2023-11-14T22:13:20.000Z'',
                                  out_receivedAt = ''2023-11-14T22:13:20.500Z'' \<rparr>] \<rparr>"
    by (simp add: strava_get_recent_events_def slice0_def Let_def f)
  moreover have "strava_get_recent_events (Some 1) [new_event late_call] =
          Tool_error ''Error: Invalid time value''"
    by (simp add: strava_get_recent_events_def slice0_def Let_def g)
  ultimately show ?thesis
    by (simp add: a b)
qed

end
